theory Spec2Isabelle
  imports Complex_Main
begin

section \<open>Python values, exceptions and the environment\<close>

text \<open>
  The module \<^verbatim>\<open>browsermobproxy/server.py\<close> supervises an external process. Everything
  it does is an effect on the operating system, so the model threads an explicit
  \<open>world\<close> through every call and reads the parts of the system the program cannot
  control (the network, the behaviour of the child, the platform) from an immutable
  \<open>env\<close>. An exception is a value \<open>Inl e\<close> of the result.
\<close>

datatype os_errno = ECONNREFUSED | ETIMEDOUT | EHOSTUNREACH | EAI_NONAME | ESRCH | EPERM

text \<open>
  The exception classes that occur. The module needs \<^verbatim>\<open>weakref.finalize\<close>, hence
  Python 3.4 or later, where \<^verbatim>\<open>socket.error\<close> is \<^verbatim>\<open>OSError\<close> and the timeout and
  name-resolution errors of the socket module are subclasses of it.
\<close>

datatype exn =
    ProxyServerError string
  | OSError os_errno
  | AttributeError
  | OverflowError
  | KeyError string

fun is_socket_error :: "exn \<Rightarrow> bool" where
  "is_socket_error (OSError _) = True"
| "is_socket_error _ = False"

fun is_AttributeError :: "exn \<Rightarrow> bool" where
  "is_AttributeError AttributeError = True"
| "is_AttributeError _ = False"

record file_obj =
  fd :: nat
  name :: string

record popen =
  pid :: nat

datatype spawn_mode = CREATE_NEW_PROCESS_GROUP | Setsid

datatype event =
    EvOpen string
  | EvConnect string int real
  | EvSpawn nat "string list" spawn_mode nat
  | EvSleep real
  | EvKill nat
  | EvWait nat
  | EvKillpg nat
  | EvClose nat

text \<open>
  The mutable part of the system: a logical clock (one tick for every connection attempt
  and every sleep), the regular files with their contents, their executable bits, the open
  file descriptors, the process identifiers handed out and killed so far, and the effects
  performed, in order.
\<close>

record world =
  clock :: nat
  files :: "string \<rightharpoonup> string"
  executable :: "string \<Rightarrow> bool"
  open_fds :: "nat set"
  next_fd :: nat
  next_pid :: nat
  killed :: "nat set"
  trace :: "event list"

text \<open>
  The part the program only reads. \<open>connect_at host port t\<close> is the outcome of a TCP
  connection attempt made at time \<open>t\<close> (\<open>None\<close> for an accepted connection);
  \<open>exit_plan p\<close> says when and with which status the process \<open>p\<close> exits if nobody kills
  it; \<open>killpg_at g t\<close> is the outcome of signalling the group \<open>g\<close> on a platform that
  has \<^verbatim>\<open>os.killpg\<close>. \<^verbatim>\<open>os.path.join\<close> and the text a file object formats to depend
  on the platform and are parameters.
\<close>

record env =
  platform_system :: string
  sys_platform :: string
  environ :: "string \<rightharpoonup> string"
  getcwd :: string
  os_path_join :: "string \<Rightarrow> string \<Rightarrow> string"
  os_getpgid :: "nat \<Rightarrow> nat"
  format_file :: "file_obj \<Rightarrow> string"
  connect_at :: "string \<Rightarrow> int \<Rightarrow> nat \<Rightarrow> os_errno option"
  exit_plan :: "nat \<Rightarrow> (nat \<times> int) option"
  killpg_at :: "nat \<Rightarrow> nat \<Rightarrow> os_errno option"

subsection \<open>Strings\<close>

text \<open>\<^verbatim>\<open>s.endswith(suf)\<close>.\<close>

definition str_endswith :: "string \<Rightarrow> string \<Rightarrow> bool" where
  "str_endswith s suf = (length suf \<le> length s \<and> drop (length s - length suf) s = suf)"

text \<open>\<^verbatim>\<open>s.split(c)\<close> for a one-character separator: the empty string gives one empty field.\<close>

fun str_split :: "char \<Rightarrow> string \<Rightarrow> string list" where
  "str_split c [] = [[]]"
| "str_split c (x # xs) =
     (if x = c then [] # str_split c xs
      else (case str_split c xs of [] \<Rightarrow> [[x]] | r # rs \<Rightarrow> (x # r) # rs))"

text \<open>\<^verbatim>\<open>'%s' % n\<close> for an integer: its decimal digits, with a minus sign below zero.\<close>

definition digit_char :: "nat \<Rightarrow> char" where
  "digit_char d = ''0123456789'' ! d"

fun str_nat :: "nat \<Rightarrow> string" where
  "str_nat n = (if n < 10 then [digit_char n] else str_nat (n div 10) @ [digit_char (n mod 10)])"

definition str_int :: "int \<Rightarrow> string" where
  "str_int i = (if i < 0 then CHR ''-'' # str_nat (nat (- i)) else str_nat (nat i))"

subsection \<open>Library calls\<close>

text \<open>\<^verbatim>\<open>os.path.isfile\<close>: the path names a regular file. Executable bits are not read.\<close>

definition os_path_isfile :: "world \<Rightarrow> string \<Rightarrow> bool" where
  "os_path_isfile w p = (files w p \<noteq> None)"

text \<open>
  \<^verbatim>\<open>open(p, 'w')\<close>: the file exists and is empty afterwards, and a fresh descriptor is
  open. The model takes the call to succeed.
\<close>

definition py_open_w :: "world \<Rightarrow> string \<Rightarrow> file_obj \<times> world" where
  "py_open_w w p =
     (\<lparr>fd = next_fd w, name = p\<rparr>,
      w\<lparr>files := (files w)(p \<mapsto> []), open_fds := insert (next_fd w) (open_fds w),
        next_fd := Suc (next_fd w), trace := trace w @ [EvOpen p]\<rparr>)"

definition file_close :: "world \<Rightarrow> file_obj \<Rightarrow> world" where
  "file_close w f = w\<lparr>open_fds := open_fds w - {fd f}, trace := trace w @ [EvClose (fd f)]\<rparr>"

text \<open>
  The exit status the system holds for a process at the current time: \<open>-9\<close> once it has
  been killed, its own status once its time has come, and \<open>None\<close> while it runs.
  \<^verbatim>\<open>Popen.poll()\<close> returns exactly this.
\<close>

definition os_exit :: "env \<Rightarrow> world \<Rightarrow> nat \<Rightarrow> int option" where
  "os_exit env w p =
     (if p \<in> killed w then Some (- 9)
      else (case exit_plan env p of
              None \<Rightarrow> None
            | Some (t, rc) \<Rightarrow> if t \<le> clock w then Some rc else None))"

definition poll :: "env \<Rightarrow> world \<Rightarrow> popen \<Rightarrow> int option" where
  "poll env w p = os_exit env w (pid p)"

definition proc_kill :: "world \<Rightarrow> popen \<Rightarrow> world" where
  "proc_kill w p = w\<lparr>killed := insert (pid p) (killed w), trace := trace w @ [EvKill (pid p)]\<rparr>"

text \<open>\<^verbatim>\<open>Popen.wait()\<close> is only called on a process that has just been killed, so it returns.\<close>

definition proc_wait :: "world \<Rightarrow> popen \<Rightarrow> world" where
  "proc_wait w p = w\<lparr>trace := trace w @ [EvWait (pid p)]\<rparr>"

text \<open>
  \<^verbatim>\<open>os.killpg(g, signal.SIGINT)\<close>: the \<^verbatim>\<open>os\<close> module of Windows has no \<^verbatim>\<open>killpg\<close>, so
  the attribute lookup raises \<^verbatim>\<open>AttributeError\<close>; elsewhere the call either succeeds or
  raises \<^verbatim>\<open>OSError\<close> (\<^verbatim>\<open>ProcessLookupError\<close> when the group has no member left,
  \<^verbatim>\<open>PermissionError\<close>).
\<close>

definition os_killpg :: "env \<Rightarrow> world \<Rightarrow> nat \<Rightarrow> exn option \<times> world" where
  "os_killpg env w g =
     (if sys_platform env = ''win32'' then (Some AttributeError, w)
      else (map_option OSError (killpg_at env g (clock w)), w\<lparr>trace := trace w @ [EvKillpg g]\<rparr>))"

text \<open>
  \<^verbatim>\<open>subprocess.Popen(command, ..., stdout=log_file, stderr=subprocess.STDOUT)\<close>: a new
  process with a fresh identifier. The model takes the call to succeed.
\<close>

definition Popen :: "world \<Rightarrow> string list \<Rightarrow> spawn_mode \<Rightarrow> file_obj option \<Rightarrow> popen \<times> world" where
  "Popen w cmd mode out =
     (\<lparr>pid = next_pid w\<rparr>,
      w\<lparr>next_pid := Suc (next_pid w),
        trace := trace w @ [EvSpawn (next_pid w) cmd mode (case out of None \<Rightarrow> 1 | Some f \<Rightarrow> fd f)]\<rparr>)"

definition time_sleep :: "world \<Rightarrow> real \<Rightarrow> world" where
  "time_sleep w d = w\<lparr>clock := Suc (clock w), trace := trace w @ [EvSleep d]\<rparr>"

text \<open>
  \<^verbatim>\<open>socket_.connect((host, port))\<close>: CPython rejects a port outside \<open>0..65535\<close> with
  \<^verbatim>\<open>OverflowError\<close> before it touches the network; otherwise the network decides, and
  every failure of the attempt is an \<^verbatim>\<open>OSError\<close>.
\<close>

definition socket_connect :: "env \<Rightarrow> world \<Rightarrow> string \<Rightarrow> int \<Rightarrow> exn option" where
  "socket_connect env w h p =
     (if p < 0 \<or> 65535 < p then Some OverflowError
      else map_option OSError (connect_at env h p (clock w)))"

section \<open>RemoteServer\<close>

text \<open>
  \<^verbatim>\<open>RemoteServer._is_listening\<close>: the body of the \<^verbatim>\<open>try\<close> returns \<open>True\<close>, the
  handler catches \<^verbatim>\<open>socket.error\<close> and returns \<open>False\<close>, and any other exception
  leaves the method. The event records the timeout set on the socket, in seconds.
\<close>

definition is_listening :: "env \<Rightarrow> world \<Rightarrow> string \<Rightarrow> int \<Rightarrow> (exn + bool) \<times> world" where
  "is_listening env w h p =
     (let w1 = w\<lparr>clock := Suc (clock w), trace := trace w @ [EvConnect h p 1]\<rparr>
      in case socket_connect env w h p of
           None \<Rightarrow> (Inr True, w1)
         | Some e \<Rightarrow> if is_socket_error e then (Inr False, w1) else (Inl e, w1))"

section \<open>Server\<close>

record fin_server =
  win_env :: bool
  process :: "popen option"
  log_file :: "file_obj option"

record server =
  path :: string
  host :: string
  port :: int
  proxyPortRange :: string
  fin :: fin_server
  command :: "string list"

record server_options =
  opt_host :: "string option"
  opt_port :: "int option"
  opt_proxyPortRange :: "string option"

record start_options =
  opt_log_path :: "string option"
  opt_log_file :: "string option"
  opt_retry_sleep :: "real option"
  opt_retry_count :: "int option"

definition no_server_options :: server_options where
  "no_server_options = \<lparr>opt_host = None, opt_port = None, opt_proxyPortRange = None\<rparr>"

definition no_start_options :: start_options where
  "no_start_options =
     \<lparr>opt_log_path = None, opt_log_file = None, opt_retry_sleep = None, opt_retry_count = None\<rparr>"

text \<open>\<^verbatim>\<open>d.get(key, default)\<close>.\<close>

definition dict_get :: "'a option \<Rightarrow> 'a \<Rightarrow> 'a" where
  "dict_get v d = (case v of None \<Rightarrow> d | Some x \<Rightarrow> x)"

subsection \<open>The finalized part: \<^verbatim>\<open>stop\<close>\<close>

definition FinalizedServer_init :: "env \<Rightarrow> fin_server" where
  "FinalizedServer_init env =
     \<lparr>win_env = (sys_platform env = ''win32''), process = None, log_file = None\<rparr>"

text \<open>
  The body of the \<^verbatim>\<open>try\<close> in \<^verbatim>\<open>stop\<close>: kill, wait, signal the group, forget the
  process. The result is the exception that left it, if any.
\<close>

definition stop_try_body ::
  "env \<Rightarrow> world \<Rightarrow> fin_server \<Rightarrow> popen \<Rightarrow> nat \<Rightarrow> exn option \<times> world \<times> fin_server" where
  "stop_try_body env w f p group_pid =
     (let w1 = proc_kill w p;
          w2 = proc_wait w1 p
      in case os_killpg env w2 group_pid of
           (Some e, w3) \<Rightarrow> (Some e, w3, f)
         | (None, w3) \<Rightarrow> (None, w3, f\<lparr>process := None\<rparr>))"

text \<open>The second statement of \<^verbatim>\<open>stop\<close>: close the log file and forget it.\<close>

definition stop_close_log :: "world \<Rightarrow> fin_server \<Rightarrow> world \<times> fin_server" where
  "stop_close_log w f =
     (case log_file f of
        None \<Rightarrow> (w, f)
      | Some lf \<Rightarrow> (file_close w lf, f\<lparr>log_file := None\<rparr>))"

definition FinalizedServer_stop ::
  "env \<Rightarrow> world \<Rightarrow> fin_server \<Rightarrow> (exn + unit) \<times> world \<times> fin_server" where
  "FinalizedServer_stop env w f =
     (case process f of
        None \<Rightarrow> (case stop_close_log w f of (w', f') \<Rightarrow> (Inr (), w', f'))
      | Some p \<Rightarrow>
          if poll env w p = None then
            (let group_pid = (if \<not> win_env f then os_getpgid env (pid p) else pid p)
             in case stop_try_body env w f p group_pid of
                  (None, w1, f1) \<Rightarrow>
                    (case stop_close_log w1 f1 of (w', f') \<Rightarrow> (Inr (), w', f'))
                | (Some e, w1, f1) \<Rightarrow>
                    if is_AttributeError e
                    then (case stop_close_log w1 f1 of (w', f') \<Rightarrow> (Inr (), w', f'))
                    else (Inl e, w1, f1))
          else (case stop_close_log w f of (w', f') \<Rightarrow> (Inr (), w', f')))"

text \<open>\<^verbatim>\<open>Server.stop\<close> is \<^verbatim>\<open>self.fin.stop()\<close>.\<close>

definition stop :: "env \<Rightarrow> world \<Rightarrow> server \<Rightarrow> (exn + unit) \<times> world \<times> server" where
  "stop env w s =
     (case FinalizedServer_stop env w (fin s) of (r, w', f') \<Rightarrow> (r, w', s\<lparr>fin := f'\<rparr>))"

subsection \<open>Construction\<close>

text \<open>Lines 95 to 99: the separator of the PATH list and the path with its suffix.\<close>

definition platform_adapt :: "env \<Rightarrow> string \<Rightarrow> char \<times> string" where
  "platform_adapt env p =
     (if platform_system env = ''Windows''
      then (CHR '';'', if \<not> str_endswith p ''.bat'' then p @ ''.bat'' else p)
      else (CHR '':'', p))"

text \<open>Lines 101 to 105: the loop over the directories, left at the first hit.\<close>

fun exec_not_on_path :: "env \<Rightarrow> world \<Rightarrow> string list \<Rightarrow> string \<Rightarrow> bool" where
  "exec_not_on_path env w [] p = True"
| "exec_not_on_path env w (directory # ds) p =
     (if os_path_isfile w (os_path_join env directory p) then False
      else exec_not_on_path env w ds p)"

definition Server_init ::
  "env \<Rightarrow> world \<Rightarrow> string option \<Rightarrow> server_options option \<Rightarrow> exn + server" where
  "Server_init env w path_arg options_arg =
     (let path0 = dict_get path_arg ''browsermob-proxy'';
          options = dict_get options_arg no_server_options;
          path_var_sep = fst (platform_adapt env path0);
          p = snd (platform_adapt env path0)
      in case environ env ''PATH'' of
           None \<Rightarrow> Inl (KeyError ''PATH'')
         | Some path_var \<Rightarrow>
             if \<not> os_path_isfile w p \<and> exec_not_on_path env w (str_split path_var_sep path_var) p
             then Inl (ProxyServerError
                    (''Browsermob-Proxy binary couldn't be found in path provided: '' @ p))
             else
               (let h = dict_get (opt_host options) ''localhost'';
                    pt = dict_get (opt_port options) 8080;
                    rng = dict_get (opt_proxyPortRange options) ''8081-8581''
                in Inr \<lparr>path = p, host = h, port = pt, proxyPortRange = rng,
                        fin = FinalizedServer_init env,
                        command = (if platform_system env = ''Darwin'' then [''sh''] else [])
                                  @ [p, ''--port='' @ str_int pt, ''--proxyPortRange='' @ rng]\<rparr>))"

subsection \<open>\<^verbatim>\<open>start\<close>\<close>

definition start_on_windows :: "world \<Rightarrow> server \<Rightarrow> popen \<times> world" where
  "start_on_windows w s = Popen w (command s) CREATE_NEW_PROCESS_GROUP (log_file (fin s))"

definition start_on_unix :: "world \<Rightarrow> server \<Rightarrow> popen \<times> world" where
  "start_on_unix w s = Popen w (command s) Setsid (log_file (fin s))"

text \<open>
  \<^verbatim>\<open>'{0}'.format(self.fin.log_file)\<close>: the text of the file object, or of
  \<^verbatim>\<open>None\<close>.
\<close>

definition format_log_file :: "env \<Rightarrow> file_obj option \<Rightarrow> string" where
  "format_log_file env lf = (case lf of None \<Rightarrow> ''None'' | Some f \<Rightarrow> format_file env f)"

definition failed_to_start_message :: "env \<Rightarrow> file_obj option \<Rightarrow> string" where
  "failed_to_start_message env lf =
     ''The Browsermob-Proxy server process failed to start. Check ''
     @ format_log_file env lf @ ''for a helpful error message.''"

text \<open>
  The truth value of \<^verbatim>\<open>self.fin.process.poll()\<close>: \<^verbatim>\<open>None\<close> and the integer \<open>0\<close> are
  false, every other integer is true.
\<close>

definition truthy :: "int option \<Rightarrow> bool" where
  "truthy r = (case r of None \<Rightarrow> False | Some rc \<Rightarrow> rc \<noteq> 0)"

text \<open>
  One round of the loop of lines 150 to 168: the test of the \<^verbatim>\<open>while\<close> and, when it
  holds, the body. \<open>Inl\<close> is the way out of the loop (the method returns or raises),
  \<open>Inr\<close> the counter and the state the next round starts from.
\<close>

definition loop_round ::
  "env \<Rightarrow> real \<Rightarrow> int \<Rightarrow> int \<Rightarrow> world \<Rightarrow> server
     \<Rightarrow> ((exn + unit) \<times> world \<times> server) + (int \<times> world \<times> server)" where
  "loop_round env retry_sleep retry_count count w s =
     (case is_listening env w (host s) (port s) of
        (Inl e, w1) \<Rightarrow> Inl (Inl e, w1, s)
      | (Inr True, w1) \<Rightarrow> Inl (Inr (), w1, s)
      | (Inr False, w1) \<Rightarrow>
          (case process (fin s) of
             None \<Rightarrow> Inl (Inl AttributeError, w1, s)
           | Some p \<Rightarrow>
               if truthy (poll env w1 p)
               then Inl (Inl (ProxyServerError (failed_to_start_message env (log_file (fin s)))),
                         w1, s)
               else
                 (let w2 = time_sleep w1 retry_sleep;
                      count' = count + 1
                  in if count' = retry_count
                     then (case stop env w2 s of
                             (Inl e, w3, s3) \<Rightarrow> Inl (Inl e, w3, s3)
                           | (Inr u, w3, s3) \<Rightarrow>
                               Inl (Inl (ProxyServerError ''Can't connect to Browsermob-Proxy''),
                                    w3, s3))
                     else Inr (count', w2, s))))"

text \<open>The loop. It need not end, so it returns \<open>None\<close> when it runs forever.\<close>

partial_function (option) start_loop ::
  "env \<Rightarrow> real \<Rightarrow> int \<Rightarrow> int \<Rightarrow> world \<Rightarrow> server \<Rightarrow> ((exn + unit) \<times> world \<times> server) option" where
  "start_loop env retry_sleep retry_count count w s =
     (case loop_round env retry_sleep retry_count count w s of
        Inl out \<Rightarrow> Some out
      | Inr (count', w', s') \<Rightarrow> start_loop env retry_sleep retry_count count' w' s')"

text \<open>Lines 132 to 139: the options, and the log file opened and stored.\<close>

definition log_path_name :: "env \<Rightarrow> start_options \<Rightarrow> string" where
  "log_path_name env options =
     os_path_join env (dict_get (opt_log_path options) (getcwd env))
                      (dict_get (opt_log_file options) ''server.log'')"

definition start_open_log :: "env \<Rightarrow> world \<Rightarrow> server \<Rightarrow> start_options \<Rightarrow> world \<times> server" where
  "start_open_log env w s options =
     (case py_open_w w (log_path_name env options) of
        (f, w1) \<Rightarrow> (w1, s\<lparr>fin := (fin s)\<lparr>log_file := Some f\<rparr>\<rparr>))"

text \<open>Lines 144 to 147.\<close>

definition start_spawn :: "world \<Rightarrow> server \<Rightarrow> world \<times> server" where
  "start_spawn w s =
     (case (if win_env (fin s) then start_on_windows w s else start_on_unix w s) of
        (p, w1) \<Rightarrow> (w1, s\<lparr>fin := (fin s)\<lparr>process := Some p\<rparr>\<rparr>))"

definition start ::
  "env \<Rightarrow> world \<Rightarrow> server \<Rightarrow> start_options option \<Rightarrow> ((exn + unit) \<times> world \<times> server) option" where
  "start env w s options_arg =
     (let options = dict_get options_arg no_start_options;
          retry_sleep = dict_get (opt_retry_sleep options) (1 / 2);
          retry_count = dict_get (opt_retry_count options) 60
      in case start_open_log env w s options of
           (w1, s1) \<Rightarrow>
             (case is_listening env w1 (host s1) (port s1) of
                (Inl e, w2) \<Rightarrow> Some (Inl e, w2, s1)
              | (Inr True, w2) \<Rightarrow>
                  Some (Inl (ProxyServerError (''Port already in use: '' @ str_int (port s1))),
                        w2, s1)
              | (Inr False, w2) \<Rightarrow>
                  (case start_spawn w2 s1 of
                     (w3, s3) \<Rightarrow> start_loop env retry_sleep retry_count 0 w3 s3)))"

subsection \<open>Vocabulary of the properties\<close>


text \<open>
  The world after one round of the loop that neither found the port open nor the child
  exited (a probe, then a sleep), and after \<open>n\<close> such rounds.
\<close>

definition after_round :: "string \<Rightarrow> int \<Rightarrow> real \<Rightarrow> world \<Rightarrow> world" where
  "after_round h p d w =
     time_sleep (w\<lparr>clock := Suc (clock w), trace := trace w @ [EvConnect h p 1]\<rparr>) d"

definition after_rounds :: "string \<Rightarrow> int \<Rightarrow> real \<Rightarrow> nat \<Rightarrow> world \<Rightarrow> world" where
  "after_rounds h p d n w = ((after_round h p d) ^^ n) w"

text \<open>The world and the server when the loop is entered: log opened, one probe, child spawned.\<close>

definition loop_entry :: "env \<Rightarrow> world \<Rightarrow> server \<Rightarrow> start_options \<Rightarrow> world \<times> server" where
  "loop_entry env w s options =
     (case start_open_log env w s options of
        (w1, s1) \<Rightarrow> start_spawn (snd (is_listening env w1 (host s1) (port s1))) s1)"

fun is_EvSleep :: "event \<Rightarrow> bool" where
  "is_EvSleep (EvSleep _) = True"
| "is_EvSleep _ = False"

fun is_EvSpawn :: "event \<Rightarrow> bool" where
  "is_EvSpawn (EvSpawn _ _ _ _) = True"
| "is_EvSpawn _ = False"

text \<open>
  A concrete POSIX system for the examples: \<^verbatim>\<open>posixpath.join\<close>, a \<^verbatim>\<open>PATH\<close> of two
  directories, nothing listening and a child that never exits.
\<close>

definition posix_join :: "string \<Rightarrow> string \<Rightarrow> string" where
  "posix_join a b =
     (if b \<noteq> [] \<and> hd b = CHR ''/'' then b
      else if a = [] \<or> last a = CHR ''/'' then a @ b
      else a @ ''/'' @ b)"

definition posix_env :: env where
  "posix_env =
     \<lparr>platform_system = ''Linux'', sys_platform = ''linux'',
      environ = [''PATH'' \<mapsto> ''/usr/bin:/opt/bmp/bin''], getcwd = ''/home/u'',
      os_path_join = posix_join, os_getpgid = (\<lambda>p. p),
      format_file = (\<lambda>f. ''<_io.TextIOWrapper name='' @ name f @ '' mode=w>''),
      connect_at = (\<lambda>h p t. Some ECONNREFUSED),
      exit_plan = (\<lambda>p. None),
      killpg_at = (\<lambda>g t. None)\<rparr>"

definition windows_env :: env where
  "windows_env = posix_env\<lparr>platform_system := ''Windows'', sys_platform := ''win32''\<rparr>"

definition world0 :: world where
  "world0 =
     \<lparr>clock = 0, files = [''/opt/bmp/bin/browsermob-proxy'' \<mapsto> ''#!/bin/sh''],
      executable = (\<lambda>p. False), open_fds = {}, next_fd = 3, next_pid = 100, killed = {},
      trace = []\<rparr>"

definition server0 :: server where
  "server0 =
     \<lparr>path = ''browsermob-proxy'', host = ''localhost'', port = 8080,
      proxyPortRange = ''8081-8581'',
      fin = \<lparr>win_env = False, process = None, log_file = None\<rparr>,
      command = [''browsermob-proxy'', ''--port=8080'', ''--proxyPortRange=8081-8581'']\<rparr>"

text \<open>
  A server that has been started: process 100 runs and the log file is open on descriptor 3.
\<close>

definition running_world :: world where
  "running_world =
     world0\<lparr>files := (files world0)(''/home/u/server.log'' \<mapsto> []), open_fds := {3},
            next_fd := 4, next_pid := 101\<rparr>"

definition running_server :: server where
  "running_server =
     server0\<lparr>fin := \<lparr>win_env = False, process = Some \<lparr>pid = 100\<rparr>,
                       log_file = Some \<lparr>fd = 3, name = ''/home/u/server.log''\<rparr>\<rparr>\<rparr>"

section \<open>Properties\<close>

lemmas example_defs =
  posix_env_def windows_env_def world0_def server0_def posix_join_def
  running_world_def running_server_def
  dict_get_def no_server_options_def no_start_options_def digit_char_def str_int_def

subsection \<open>Strings and the search path\<close>

lemma str_endswith_iff: "str_endswith s suf \<longleftrightarrow> (\<exists>pre. s = pre @ suf)"
proof
  assume "str_endswith s suf"
  then have "s = take (length s - length suf) s @ suf"
    unfolding str_endswith_def by (metis append_take_drop_id)
  then show "\<exists>pre. s = pre @ suf" ..
next
  assume "\<exists>pre. s = pre @ suf"
  then show "str_endswith s suf" unfolding str_endswith_def by auto
qed

lemma exec_not_on_path_iff:
  "exec_not_on_path env w ds p \<longleftrightarrow> (\<forall>d \<in> set ds. \<not> os_path_isfile w (os_path_join env d p))"
  by (induction ds) auto


subsection \<open>The probe\<close>






subsection \<open>Construction\<close>

text \<open>
  Claim C9: on Windows the constructor appends \<^verbatim>\<open>.bat\<close> exactly when the path does not end
  in it and splits the \<^verbatim>\<open>PATH\<close> list at \<open>;\<close>; on every other platform the path is unchanged
  and the list is split at \<open>:\<close>. The adapted path is the one the server keeps, and the
  directories searched are the fields of \<^verbatim>\<open>PATH\<close> under that separator.
\<close>

theorem platform_adaptation:
  "fst (platform_adapt env p) = (if platform_system env = ''Windows'' then CHR '';'' else CHR '':'')
   \<and> snd (platform_adapt env p) =
       (if platform_system env = ''Windows'' \<and> \<not> (\<exists>pre. p = pre @ ''.bat'') then p @ ''.bat'' else p)
   \<and> (\<forall>s. Server_init env w (Some p) opts = Inr s \<longrightarrow> path s = snd (platform_adapt env p))
   \<and> (\<forall>pv. environ env ''PATH'' = Some pv \<longrightarrow>
        (\<exists>s. Server_init env w (Some p) opts = Inr s) =
        (os_path_isfile w (snd (platform_adapt env p))
         \<or> (\<exists>d \<in> set (str_split (fst (platform_adapt env p)) pv).
              os_path_isfile w (os_path_join env d (snd (platform_adapt env p))))))"
  by (auto simp: platform_adapt_def str_endswith_iff Server_init_def Let_def dict_get_def
        exec_not_on_path_iff split: option.splits if_splits)

theorem platform_adaptation_witness:
  "platform_adapt windows_env ''proxy'' = (CHR '';'', ''proxy.bat'')
   \<and> platform_adapt posix_env ''proxy'' = (CHR '':'', ''proxy'')
   \<and> platform_adapt windows_env ''proxy.bat'' = (CHR '';'', ''proxy.bat'')
   \<and> (\<exists>s. Server_init posix_env world0 (Some ''browsermob-proxy'') None = Inr s)"
  using platform_adaptation [of windows_env "''proxy''" world0 None]
        platform_adaptation [of posix_env "''proxy''" world0 None]
        platform_adaptation [of windows_env "''proxy.bat''" world0 None]
        platform_adaptation [of posix_env "''browsermob-proxy''" world0 None]
  by (simp add: prod_eq_iff example_defs os_path_isfile_def)



subsection \<open>\<^verbatim>\<open>stop\<close>\<close>

lemma stop_close_log_state:
  "log_file (snd (stop_close_log w f)) = None
   \<and> process (snd (stop_close_log w f)) = process f
   \<and> win_env (snd (stop_close_log w f)) = win_env f"
  by (simp add: stop_close_log_def split: option.splits)

lemma stop_close_log_world:
  "killed (fst (stop_close_log w f)) = killed w
   \<and> clock (fst (stop_close_log w f)) = clock w
   \<and> next_pid (fst (stop_close_log w f)) = next_pid w
   \<and> next_fd (fst (stop_close_log w f)) = next_fd w
   \<and> files (fst (stop_close_log w f)) = files w
   \<and> open_fds (fst (stop_close_log w f))
       = open_fds w - (case log_file f of None \<Rightarrow> {} | Some lf \<Rightarrow> {fd lf})
   \<and> trace (fst (stop_close_log w f))
       = trace w @ (case log_file f of None \<Rightarrow> [] | Some lf \<Rightarrow> [EvClose (fd lf)])"
  by (simp add: stop_close_log_def file_close_def split: option.splits)



lemma os_exit_killed: "p \<in> killed w \<Longrightarrow> os_exit env w p = Some (- 9)"
  by (simp add: os_exit_def)







lemmas stop_defs =
  stop_def FinalizedServer_stop_def stop_try_body_def stop_close_log_def file_close_def
  proc_kill_def proc_wait_def os_killpg_def poll_def os_exit_def



text \<open>
  Claim C3, as stated: every platform error of the group signal is swallowed and the log
  file is closed all the same. It fails on POSIX when \<^verbatim>\<open>os.killpg\<close> raises \<^verbatim>\<open>OSError\<close>
  (here \<^verbatim>\<open>ProcessLookupError\<close>): the handler is for \<^verbatim>\<open>AttributeError\<close> only, so the error
  leaves \<^verbatim>\<open>stop\<close> and the log file stays open.
\<close>

theorem stop_killpg_oserror_counterexample:
  "fst (stop (posix_env\<lparr>killpg_at := (\<lambda>g t. Some ESRCH)\<rparr>) running_world running_server)
     = Inl (OSError ESRCH)
   \<and> log_file (fin (snd (snd (stop (posix_env\<lparr>killpg_at := (\<lambda>g t. Some ESRCH)\<rparr>)
                                    running_world running_server))))
     = Some \<lparr>fd = 3, name = ''/home/u/server.log''\<rparr>
   \<and> 3 \<in> open_fds (fst (snd (stop (posix_env\<lparr>killpg_at := (\<lambda>g t. Some ESRCH)\<rparr>)
                                    running_world running_server)))"
  by (simp add: stop_defs example_defs Let_def)

text \<open>
  Claim C3, amended: on a live process, when the group signal succeeds or raises
  \<^verbatim>\<open>AttributeError\<close> (the capability is missing), \<^verbatim>\<open>stop\<close> raises nothing, the process
  has been killed, and the log file is closed and forgotten. Any other exception of the
  group signal leaves \<^verbatim>\<open>stop\<close>, with the log file still open.
\<close>

theorem stop_swallows_AttributeError:
  assumes "process (fin s) = Some p" and "poll env w p = None"
    and "fst (os_killpg env (proc_wait (proc_kill w p) p)
                (if \<not> win_env (fin s) then os_getpgid env (pid p) else pid p)) = x"
  shows "(x = None \<or> x = Some AttributeError \<longrightarrow>
            fst (stop env w s) = Inr ()
            \<and> log_file (fin (snd (snd (stop env w s)))) = None
            \<and> (\<forall>lf. log_file (fin s) = Some lf \<longrightarrow> fd lf \<notin> open_fds (fst (snd (stop env w s))))
            \<and> pid p \<in> killed (fst (snd (stop env w s))))
         \<and> (\<forall>e. x = Some e \<and> e \<noteq> AttributeError \<longrightarrow>
              fst (stop env w s) = Inl e
              \<and> log_file (fin (snd (snd (stop env w s)))) = log_file (fin s)
              \<and> open_fds (fst (snd (stop env w s))) = open_fds w)"
proof -
  have aux: "\<And>e. is_AttributeError e \<longleftrightarrow> e = AttributeError"
    by (case_tac e) simp_all
  show ?thesis
    using assms
    by (auto simp: stop_def FinalizedServer_stop_def stop_try_body_def Let_def case_prod_beta
        stop_close_log_state stop_close_log_world proc_kill_def proc_wait_def os_killpg_def aux
        split: option.splits if_splits)
qed

theorem stop_swallows_AttributeError_witness:
  "fst (stop windows_env running_world (running_server\<lparr>fin := (fin running_server)\<lparr>win_env := True\<rparr>\<rparr>))
     = Inr ()
   \<and> log_file (fin (snd (snd (stop windows_env running_world
        (running_server\<lparr>fin := (fin running_server)\<lparr>win_env := True\<rparr>\<rparr>))))) = None
   \<and> 3 \<notin> open_fds (fst (snd (stop windows_env running_world
        (running_server\<lparr>fin := (fin running_server)\<lparr>win_env := True\<rparr>\<rparr>))))
   \<and> fst (stop (posix_env\<lparr>killpg_at := (\<lambda>g t. Some EPERM)\<rparr>) running_world running_server)
     = Inl (OSError EPERM)"
  using stop_swallows_AttributeError
          [of "running_server\<lparr>fin := (fin running_server)\<lparr>win_env := True\<rparr>\<rparr>" "\<lparr>pid = 100\<rparr>"
              windows_env running_world "Some AttributeError"]
        stop_swallows_AttributeError
          [of running_server "\<lparr>pid = 100\<rparr>"
              "posix_env\<lparr>killpg_at := (\<lambda>g t. Some EPERM)\<rparr>" running_world "Some (OSError EPERM)"]
  by (simp add: example_defs poll_def os_exit_def os_killpg_def proc_kill_def proc_wait_def)

end
